theory Spec2Isabelle
  imports Complex_Main
begin

section \<open>Appointment scheduling of the telehealth API\<close>

text \<open>
  A shallow embedding of \<^verbatim>\<open>AppointmentsService\<close> (the revision with the
  notification hook) and of \<^verbatim>\<open>TherapistsService.getAvailableSlots\<close>.
  The relational store is a record of tables, each table a list of rows; an
  operation takes the store and returns its outcome together with the store it
  leaves behind, so that a throw after a committed write is visible as an error
  paired with a changed store. Instants (\<^verbatim>\<open>Date\<close>) are milliseconds
  since the epoch. The schema of the store is not part of the sources: rows
  carry the columns the services read and write, and the foreign keys of the
  schema appear as lookups whose failure is a read on \<^verbatim>\<open>null\<close>.
\<close>

subsection \<open>Data model\<close>

type_synonym ident = string

datatype AppointmentStatus = PENDING | CONFIRMED | COMPLETED | CANCELLED | NO_SHOW

datatype AppointmentType = SCHEDULED | INSTANT

record User =
  userIdent :: ident
  firstName :: "string option"
  lastName :: "string option"

record Therapist =
  therapistIdent :: ident
  therapistUserId :: ident
  averageRating :: real
  totalReviews :: nat

record Appointment =
  apptId :: ident
  userId :: ident
  therapistId :: ident
  scheduledAt :: int
  duration :: int
  timezone :: string
  apptType :: AppointmentType
  status :: AppointmentStatus
  amount :: int
  bookingNotes :: "string option"
  sessionNotes :: "string option"
  cancellationReason :: "string option"
  confirmedAt :: "int option"
  completedAt :: "int option"
  cancelledAt :: "int option"

record Review =
  reviewIdent :: ident
  reviewUserId :: ident
  reviewTherapistId :: ident
  reviewAppointmentId :: ident
  rating :: int
  feedback :: "string option"
  tags :: "string list"
  isAnonymous :: bool

record TherapistAvailability =
  availTherapistId :: ident
  dayOfWeek :: int
  startTime :: string
  endTime :: string
  isActive :: bool

text \<open>
  Modelled from the spec: the columns of a blocked slot (the schema is not part
  of the sources): "an explicit therapist-declared exception removing
  availability for a specific date/time range".
\<close>

record BlockedSlot =
  blockedTherapistId :: ident
  blockedFrom :: int
  blockedUntil :: int

record Db =
  users :: "User list"
  therapists :: "Therapist list"
  appointments :: "Appointment list"
  reviews :: "Review list"
  availabilities :: "TherapistAvailability list"
  blockedSlots :: "BlockedSlot list"

text \<open>
  The exceptions of the service, and the ways a call into a collaborator can
  throw: a rejected notification, a violated uniqueness constraint of the store,
  an update of a row that does not exist, and a property read on a relation that
  is \<^verbatim>\<open>null\<close>.
\<close>

datatype error =
    NotFoundException string
  | BadRequestException string
  | ForbiddenException string
  | NotificationFailure string
  | UniqueConstraintViolation
  | RecordNotFound
  | TypeError

subsection \<open>Collaborators\<close>

text \<open>
  The four calls of \<^verbatim>\<open>NotificationsService\<close>, with their arguments in
  the order of the source. The service itself is not part of the sources, so its
  behaviour is a parameter: \<open>sendNotification\<close> answers \<open>None\<close> when the
  awaited call resolves and \<open>Some msg\<close> when it rejects.
  \<open>toLocaleString\<close> stands for the platform's date formatting, which
  \<^verbatim>\<open>formatDateTime\<close> wraps in a try/catch so that it always returns,
  and \<open>trim\<close> for \<^verbatim>\<open>String.prototype.trim\<close>. \<open>toDouble\<close>
  is the conversion under which the store's aggregate hands an average to the
  service as a JavaScript number: the stored averageRating is a double, not the
  exact quotient.
\<close>

datatype Notification =
    BookingRequest ident ident string string
  | BookingConfirmation ident ident string string
  | BookingDeclined ident ident string "string option"
  | AppointmentCancelled ident ident string string string

record Services =
  sendNotification :: "Notification \<Rightarrow> string option"
  toLocaleString :: "int \<Rightarrow> string \<Rightarrow> string"
  trim :: "string \<Rightarrow> string"
  toDouble :: "real \<Rightarrow> real"

definition formatDateTime :: "Services \<Rightarrow> int \<Rightarrow> string \<Rightarrow> string" where
  "formatDateTime sv d tz = toLocaleString sv d tz"

subsection \<open>String helpers of the notification texts\<close>

text \<open>\<^verbatim>\<open>x || ''\<close> on an optional string.\<close>

definition orEmpty :: "string option \<Rightarrow> string" where
  "orEmpty x = (case x of None \<Rightarrow> [] | Some s \<Rightarrow> s)"

text \<open>An optional string inside a template literal: \<^verbatim>\<open>null\<close> prints as such.\<close>

definition interpolate :: "string option \<Rightarrow> string" where
  "interpolate x = (case x of None \<Rightarrow> ''null'' | Some s \<Rightarrow> s)"

definition patientNameOr :: "Services \<Rightarrow> User option \<Rightarrow> string" where
  "patientNameOr sv p =
     (let n = trim sv (orEmpty (case p of None \<Rightarrow> None | Some u \<Rightarrow> firstName u) @ '' ''
                       @ orEmpty (case p of None \<Rightarrow> None | Some u \<Rightarrow> lastName u))
      in if n = [] then ''A patient'' else n)"

definition therapistName :: "Services \<Rightarrow> User \<Rightarrow> string" where
  "therapistName sv u =
     trim sv (''Dr. '' @ interpolate (firstName u) @ '' '' @ interpolate (lastName u))"

definition patientName :: "Services \<Rightarrow> User \<Rightarrow> string" where
  "patientName sv u = trim sv (interpolate (firstName u) @ '' '' @ interpolate (lastName u))"

subsection \<open>Storage reads and writes\<close>

definition findUser :: "Db \<Rightarrow> ident \<Rightarrow> User option" where
  "findUser db i = find (\<lambda>u. userIdent u = i) (users db)"

definition findTherapist :: "Db \<Rightarrow> ident \<Rightarrow> Therapist option" where
  "findTherapist db i = find (\<lambda>t. therapistIdent t = i) (therapists db)"

definition findAppointment :: "Db \<Rightarrow> ident \<Rightarrow> Appointment option" where
  "findAppointment db i = find (\<lambda>a. apptId a = i) (appointments db)"

text \<open>\<^verbatim>\<open>include: { therapist: { include: { user: ... } } }\<close>\<close>

definition therapistUser :: "Db \<Rightarrow> Appointment \<Rightarrow> User option" where
  "therapistUser db a =
     (case findTherapist db (therapistId a) of
        None \<Rightarrow> None
      | Some t \<Rightarrow> findUser db (therapistUserId t))"

text \<open>\<^verbatim>\<open>prisma.appointment.update({ where: { id }, data })\<close>: the row with that id is rewritten.\<close>

definition updateAppointment :: "Db \<Rightarrow> ident \<Rightarrow> (Appointment \<Rightarrow> Appointment) \<Rightarrow> Db" where
  "updateAppointment db i f =
     db\<lparr>appointments := map (\<lambda>a. if apptId a = i then f a else a) (appointments db)\<rparr>"

definition notifyThen ::
  "Services \<Rightarrow> Notification \<Rightarrow> 'a \<Rightarrow> Db \<Rightarrow> (error + 'a) \<times> Db" where
  "notifyThen sv n r db =
     (case sendNotification sv n of
        None \<Rightarrow> (Inr r, db)
      | Some msg \<Rightarrow> (Inl (NotificationFailure msg), db))"

subsection \<open>Cancellation policy\<close>

text \<open>
  \<^verbatim>\<open>const hoursUntilAppointment =
    (appointment.scheduledAt.getTime() - Date.now()) / (1000 * 60 * 60);\<close>
  The quotient is taken exactly; the source's double division is monotone and
  exact at the two thresholds, so the comparisons agree. \<open>refundPercentage\<close>
  is the local variable of that name in \<^verbatim>\<open>cancel\<close>, as a function of
  the scheduled start and of \<^verbatim>\<open>Date.now()\<close>.
\<close>

definition hoursUntilAppointment :: "int \<Rightarrow> int \<Rightarrow> real" where
  "hoursUntilAppointment sched now = real_of_int (sched - now) / (1000 * 60 * 60)"

definition refundPercentage :: "int \<Rightarrow> int \<Rightarrow> nat" where
  "refundPercentage sched now =
     (if hoursUntilAppointment sched now > 24 then 100
      else if hoursUntilAppointment sched now > 2 then 50
      else 0)"

subsection \<open>Booking\<close>

record CreateData =
  cUserId :: ident
  cTherapistId :: ident
  cScheduledAt :: int
  cDuration :: int
  cTimezone :: string
  cType :: "AppointmentType option"
  cBookingNotes :: "string option"
  cAmount :: int

text \<open>
  \<^verbatim>\<open>prisma.appointment.findFirst({ where: { therapistId, scheduledAt,
  status: { in: ['PENDING', 'CONFIRMED'] } } })\<close>
\<close>

definition conflicting :: "Db \<Rightarrow> CreateData \<Rightarrow> Appointment option" where
  "conflicting db d =
     find (\<lambda>a. therapistId a = cTherapistId d \<and> scheduledAt a = cScheduledAt d
               \<and> (status a = PENDING \<or> status a = CONFIRMED))
          (appointments db)"

definition newAppointment :: "ident \<Rightarrow> CreateData \<Rightarrow> Appointment" where
  "newAppointment newId d =
     \<lparr>apptId = newId, userId = cUserId d, therapistId = cTherapistId d,
      scheduledAt = cScheduledAt d, duration = cDuration d, timezone = cTimezone d,
      apptType = (case cType d of None \<Rightarrow> SCHEDULED | Some t \<Rightarrow> t),
      status = PENDING, amount = cAmount d, bookingNotes = cBookingNotes d,
      sessionNotes = None, cancellationReason = None,
      confirmedAt = None, completedAt = None, cancelledAt = None\<rparr>"

text \<open>
  \<^verbatim>\<open>AppointmentsService.create\<close>. The id of the new row is generated
  by the store and is passed in as \<open>newId\<close>.
\<close>

definition create ::
  "Services \<Rightarrow> ident \<Rightarrow> Db \<Rightarrow> CreateData \<Rightarrow> (error + Appointment) \<times> Db" where
  "create sv newId db d =
     (case findTherapist db (cTherapistId d) of
        None \<Rightarrow> (Inl (NotFoundException ''Therapist not found''), db)
      | Some therapist \<Rightarrow>
          (case conflicting db d of
             Some c \<Rightarrow> (Inl (BadRequestException ''Time slot is not available''), db)
           | None \<Rightarrow>
               let patient = findUser db (cUserId d);
                   appointment = newAppointment newId d;
                   db' = db\<lparr>appointments := appointments db @ [appointment]\<rparr>;
                   dateTime = formatDateTime sv (cScheduledAt d) (cTimezone d)
               in (case therapistUser db' appointment of
                     None \<Rightarrow> (Inl TypeError, db')
                   | Some tu \<Rightarrow>
                       notifyThen sv
                         (BookingRequest (userIdent tu) (apptId appointment)
                            (patientNameOr sv patient) dateTime)
                         appointment db')))"

subsection \<open>Transitions\<close>

text \<open>\<^verbatim>\<open>AppointmentsService.confirm\<close>; \<open>now\<close> is \<^verbatim>\<open>new Date()\<close>.\<close>

definition confirm ::
  "Services \<Rightarrow> int \<Rightarrow> Db \<Rightarrow> ident \<Rightarrow> ident \<Rightarrow> (error + Appointment) \<times> Db" where
  "confirm sv now db i uid =
     (case findAppointment db i of
        None \<Rightarrow> (Inl (NotFoundException ''Appointment not found''), db)
      | Some appointment \<Rightarrow>
          (case therapistUser db appointment of
             None \<Rightarrow> (Inl TypeError, db)
           | Some tu \<Rightarrow>
               if userIdent tu \<noteq> uid then (Inl (ForbiddenException ''Not authorized''), db)
               else if status appointment \<noteq> PENDING
                 then (Inl (BadRequestException ''Appointment cannot be confirmed''), db)
               else
                 let f = (\<lambda>a. a\<lparr>status := CONFIRMED, confirmedAt := Some now\<rparr>);
                     db' = updateAppointment db i f;
                     dateTime = formatDateTime sv (scheduledAt appointment) (timezone appointment)
                 in notifyThen sv
                      (BookingConfirmation (userId appointment) (apptId appointment)
                         (therapistName sv tu) dateTime)
                      (f appointment) db'))"

text \<open>
  \<^verbatim>\<open>AppointmentsService.decline\<close>;
  \<^verbatim>\<open>reason || 'Declined by therapist'\<close> replaces a missing or empty reason.
\<close>

definition decline ::
  "Services \<Rightarrow> int \<Rightarrow> Db \<Rightarrow> ident \<Rightarrow> ident \<Rightarrow> string option \<Rightarrow> (error + Appointment) \<times> Db" where
  "decline sv now db i uid reason =
     (case findAppointment db i of
        None \<Rightarrow> (Inl (NotFoundException ''Appointment not found''), db)
      | Some appointment \<Rightarrow>
          (case therapistUser db appointment of
             None \<Rightarrow> (Inl TypeError, db)
           | Some tu \<Rightarrow>
               if userIdent tu \<noteq> uid then (Inl (ForbiddenException ''Not authorized''), db)
               else if status appointment \<noteq> PENDING
                 then (Inl (BadRequestException ''Only pending appointments can be declined''), db)
               else
                 let f = (\<lambda>a. a\<lparr>status := CANCELLED,
                                cancellationReason :=
                                  Some (if orEmpty reason = [] then ''Declined by therapist''
                                        else orEmpty reason),
                                cancelledAt := Some now\<rparr>);
                     db' = updateAppointment db i f
                 in notifyThen sv
                      (BookingDeclined (userId appointment) (apptId appointment)
                         (therapistName sv tu) reason)
                      (f appointment) db'))"

text \<open>
  \<^verbatim>\<open>AppointmentsService.cancel\<close>; \<open>now\<close> is \<^verbatim>\<open>Date.now()\<close>
  of the refund computation and \<open>stamp\<close> the later \<^verbatim>\<open>new Date()\<close>
  of the update. The local \<open>refund\<close> is computed and then used nowhere, as
  in the source.
\<close>

definition cancel ::
  "Services \<Rightarrow> int \<Rightarrow> int \<Rightarrow> Db \<Rightarrow> ident \<Rightarrow> ident \<Rightarrow> string \<Rightarrow> bool
     \<Rightarrow> (error + Appointment) \<times> Db" where
  "cancel sv now stamp db i uid reason isTherapist =
     (case findAppointment db i of
        None \<Rightarrow> (Inl (NotFoundException ''Appointment not found''), db)
      | Some appointment \<Rightarrow>
          if \<not> isTherapist \<and> userId appointment \<noteq> uid
            then (Inl (ForbiddenException ''Not authorized''), db)
          else if isTherapist \<and> therapistUser db appointment = None
            then (Inl TypeError, db)
          else if isTherapist \<and> map_option userIdent (therapistUser db appointment) \<noteq> Some uid
            then (Inl (ForbiddenException ''Not authorized''), db)
          else if status appointment = COMPLETED \<or> status appointment = CANCELLED
            then (Inl (BadRequestException ''Appointment cannot be cancelled''), db)
          else
            let refund = refundPercentage (scheduledAt appointment) now;
                f = (\<lambda>a. a\<lparr>status := CANCELLED, cancellationReason := Some reason,
                           cancelledAt := Some stamp\<rparr>);
                db' = updateAppointment db i f;
                dateTime = formatDateTime sv (scheduledAt appointment) (timezone appointment)
            in if isTherapist then
                 (case therapistUser db appointment of
                    None \<Rightarrow> (Inl TypeError, db')
                  | Some tu \<Rightarrow>
                      notifyThen sv
                        (AppointmentCancelled (userId appointment) (apptId appointment)
                           (therapistName sv tu) dateTime reason)
                        (f appointment) db')
               else
                 (case findUser db (userId appointment) of
                    None \<Rightarrow> (Inl TypeError, db')
                  | Some pu \<Rightarrow>
                      (case therapistUser db appointment of
                         None \<Rightarrow> (Inl TypeError, db')
                       | Some tu \<Rightarrow>
                           notifyThen sv
                             (AppointmentCancelled (userIdent tu) (apptId appointment)
                                (patientName sv pu) dateTime reason)
                             (f appointment) db')))"

text \<open>
  \<^verbatim>\<open>AppointmentsService.complete\<close> (the name \<open>complete\<close> is taken
  by the library). An undefined
  \<^verbatim>\<open>sessionNotes\<close> leaves the column as it is. There is no test of the
  current status and no notification.
\<close>

definition complete_appointment ::
  "int \<Rightarrow> Db \<Rightarrow> ident \<Rightarrow> ident \<Rightarrow> string option \<Rightarrow> (error + Appointment) \<times> Db" where
  "complete_appointment now db i uid notes =
     (case findAppointment db i of
        None \<Rightarrow> (Inl (NotFoundException ''Appointment not found''), db)
      | Some appointment \<Rightarrow>
          (case therapistUser db appointment of
             None \<Rightarrow> (Inl TypeError, db)
           | Some tu \<Rightarrow>
               if userIdent tu \<noteq> uid then (Inl (ForbiddenException ''Not authorized''), db)
               else
                 let f = (\<lambda>a. a\<lparr>status := COMPLETED, completedAt := Some now,
                                sessionNotes :=
                                  (case notes of None \<Rightarrow> sessionNotes a | Some n \<Rightarrow> Some n)\<rparr>)
                 in (Inr (f appointment), updateAppointment db i f)))"

subsection \<open>Reviews\<close>

record ReviewData =
  dRating :: int
  dFeedback :: "string option"
  dTags :: "string list option"
  dIsAnonymous :: "bool option"

text \<open>
  Modelled from the spec: the uniqueness constraint of the review table, whose
  schema is not part of the sources ("exactly one review per appointment",
  "enforced as a uniqueness constraint"). \<^verbatim>\<open>prisma.review.create\<close>
  throws when a row with the same appointment id is already stored, and appends
  the row otherwise.
\<close>

definition reviewCreate :: "Db \<Rightarrow> Review \<Rightarrow> error + Db" where
  "reviewCreate db r =
     (if reviewAppointmentId r \<in> set (map reviewAppointmentId (reviews db))
      then Inl UniqueConstraintViolation
      else Inr (db\<lparr>reviews := reviews db @ [r]\<rparr>))"

text \<open>
  \<^verbatim>\<open>prisma.review.aggregate({ where: { therapistId }, _avg: { rating: true },
  _count: true })\<close>: the average is \<^verbatim>\<open>null\<close> over no rows, and
  otherwise the number that \<open>toDouble\<close> makes of the quotient of the sum of the
  ratings by their count.
\<close>

definition reviewsOf :: "Db \<Rightarrow> ident \<Rightarrow> Review list" where
  "reviewsOf db t = filter (\<lambda>r. reviewTherapistId r = t) (reviews db)"

definition aggregateAvg :: "Services \<Rightarrow> Review list \<Rightarrow> real option" where
  "aggregateAvg sv rs =
     (if rs = [] then None
      else Some (toDouble sv (real_of_int (sum_list (map rating rs)) / real (length rs))))"

definition aggregateCount :: "Review list \<Rightarrow> nat" where
  "aggregateCount rs = length rs"

text \<open>\<^verbatim>\<open>prisma.therapist.update\<close> throws when no row has the id.\<close>

definition updateTherapist :: "Db \<Rightarrow> ident \<Rightarrow> (Therapist \<Rightarrow> Therapist) \<Rightarrow> error + Db" where
  "updateTherapist db i f =
     (case findTherapist db i of
        None \<Rightarrow> Inl RecordNotFound
      | Some t \<Rightarrow>
          Inr (db\<lparr>therapists := map (\<lambda>t. if therapistIdent t = i then f t else t) (therapists db)\<rparr>))"

text \<open>The row that \<^verbatim>\<open>prisma.review.create\<close> is given.\<close>

definition newReview :: "ident \<Rightarrow> ident \<Rightarrow> Appointment \<Rightarrow> ident \<Rightarrow> ReviewData \<Rightarrow> Review" where
  "newReview newId uid appointment appointmentId d =
     \<lparr>reviewIdent = newId, reviewUserId = uid,
      reviewTherapistId = therapistId appointment,
      reviewAppointmentId = appointmentId,
      rating = dRating d, feedback = dFeedback d,
      tags = (case dTags d of None \<Rightarrow> [] | Some ts \<Rightarrow> ts),
      isAnonymous = (case dIsAnonymous d of None \<Rightarrow> False | Some b \<Rightarrow> b)\<rparr>"

text \<open>
  \<^verbatim>\<open>data: { averageRating: stats._avg.rating || 0, totalReviews: stats._count }\<close>
\<close>

definition withStats :: "Services \<Rightarrow> Review list \<Rightarrow> Therapist \<Rightarrow> Therapist" where
  "withStats sv stats t =
     t\<lparr>averageRating := (case aggregateAvg sv stats of None \<Rightarrow> 0 | Some v \<Rightarrow> v),
       totalReviews := aggregateCount stats\<rparr>"

text \<open>\<^verbatim>\<open>AppointmentsService.addReview\<close>; \<open>newId\<close> is the id the store generates.\<close>

definition addReview ::
  "Services \<Rightarrow> ident \<Rightarrow> Db \<Rightarrow> ident \<Rightarrow> ident \<Rightarrow> ReviewData \<Rightarrow> (error + Review) \<times> Db" where
  "addReview sv newId db appointmentId uid d =
     (case findAppointment db appointmentId of
        None \<Rightarrow> (Inl (NotFoundException ''Appointment not found''), db)
      | Some appointment \<Rightarrow>
          if userId appointment \<noteq> uid then (Inl (ForbiddenException ''Not authorized''), db)
          else if status appointment \<noteq> COMPLETED
            then (Inl (BadRequestException ''Can only review completed appointments''), db)
          else
            let review = newReview newId uid appointment appointmentId d
            in (case reviewCreate db review of
                  Inl e \<Rightarrow> (Inl e, db)
                | Inr db1 \<Rightarrow>
                    let stats = reviewsOf db1 (therapistId appointment)
                    in (case updateTherapist db1 (therapistId appointment) (withStats sv stats) of
                          Inl e \<Rightarrow> (Inl e, db1)
                        | Inr db2 \<Rightarrow> (Inr review, db2))))"

subsection \<open>Availability\<close>

record Slot =
  slotStartTime :: string
  slotEndTime :: string

record BookedSlot =
  time :: int
  bookedDuration :: int

record AvailableSlots =
  date :: string
  slots :: "Slot list"
  bookedSlots :: "BookedSlot list"

text \<open>
  \<^verbatim>\<open>Date.prototype.getDay\<close>: the day of the week (0 is Sunday) of an
  instant in the zone of the server, \<open>tzOffset\<close> minutes behind UTC. The first
  of January 1970 was a Thursday.
\<close>

definition getDay :: "int \<Rightarrow> int \<Rightarrow> int" where
  "getDay tzOffset t = ((t - tzOffset * 60000) div 86400000 + 4) mod 7"

text \<open>
  \<^verbatim>\<open>TherapistsService.getAvailableSlots\<close>. \<open>parseDate\<close> is the instant
  that \<^verbatim>\<open>new Date(date)\<close> denotes. The three \<^verbatim>\<open>include\<close>s of
  the query are the three lists below; the blocked slots are fetched and not
  looked at again. The operation only reads, so it returns no store.
\<close>

definition getAvailableSlots ::
  "(string \<Rightarrow> int) \<Rightarrow> int \<Rightarrow> Db \<Rightarrow> ident \<Rightarrow> string \<Rightarrow> error + AvailableSlots" where
  "getAvailableSlots parseDate tzOffset db tid d =
     (case findTherapist db tid of
        None \<Rightarrow> Inl (NotFoundException ''Therapist not found'')
      | Some therapist \<Rightarrow>
          let therapistAvailabilities =
                filter (\<lambda>a. availTherapistId a = tid \<and> isActive a) (availabilities db);
              therapistBlockedSlots =
                filter (\<lambda>b. blockedTherapistId b = tid) (blockedSlots db);
              therapistAppointments =
                filter (\<lambda>a. therapistId a = tid
                          \<and> parseDate d \<le> scheduledAt a
                          \<and> scheduledAt a < parseDate d + 24 * 60 * 60 * 1000
                          \<and> (status a = PENDING \<or> status a = CONFIRMED))
                       (appointments db);
              dow = getDay tzOffset (parseDate d);
              dayAvailability = filter (\<lambda>a. dayOfWeek a = dow) therapistAvailabilities
          in Inr \<lparr>date = d,
                  slots = map (\<lambda>a. \<lparr>slotStartTime = startTime a, slotEndTime = endTime a\<rparr>)
                              dayAvailability,
                  bookedSlots = map (\<lambda>a. \<lparr>time = scheduledAt a, bookedDuration = duration a\<rparr>)
                                    therapistAppointments\<rparr>)"

subsection \<open>The availability contract, in the words of the specification\<close>

text \<open>
  The offset in milliseconds of a time of day written \<^verbatim>\<open>HH:MM\<close>, the
  format the booking screen splits at the colon.
\<close>

definition digitOf :: "char \<Rightarrow> int" where
  "digitOf c = int (of_char c) - 48"

definition timeOfDayMs :: "string \<Rightarrow> int" where
  "timeOfDayMs s =
     (case s of
        [h1, h2, c, m1, m2] \<Rightarrow>
          ((digitOf h1 * 10 + digitOf h2) * 60 + digitOf m1 * 10 + digitOf m2) * 60000
      | _ \<Rightarrow> 0)"

text \<open>
  "The set of time-of-day slots implied by the recurring availability windows
  matching that date's day-of-week, minus any blocked-slot exceptions, minus
  slots already occupied by a non-terminal appointment at that exact start time."
\<close>

definition occupied :: "Db \<Rightarrow> ident \<Rightarrow> int \<Rightarrow> bool" where
  "occupied db tid start =
     (\<exists>a \<in> set (appointments db).
        therapistId a = tid \<and> scheduledAt a = start
        \<and> (status a = PENDING \<or> status a = CONFIRMED))"

definition blocked :: "Db \<Rightarrow> ident \<Rightarrow> int \<Rightarrow> int \<Rightarrow> bool" where
  "blocked db tid start end =
     (\<exists>b \<in> set (blockedSlots db).
        blockedTherapistId b = tid \<and> blockedFrom b < end \<and> start < blockedUntil b)"

definition availableSlotsSpec ::
  "(string \<Rightarrow> int) \<Rightarrow> int \<Rightarrow> Db \<Rightarrow> ident \<Rightarrow> string \<Rightarrow> Slot list" where
  "availableSlotsSpec parseDate tzOffset db tid d =
     map (\<lambda>a. \<lparr>slotStartTime = startTime a, slotEndTime = endTime a\<rparr>)
       (filter (\<lambda>a. availTherapistId a = tid \<and> isActive a
                  \<and> dayOfWeek a = getDay tzOffset (parseDate d)
                  \<and> \<not> blocked db tid (parseDate d + timeOfDayMs (startTime a))
                                       (parseDate d + timeOfDayMs (endTime a))
                  \<and> \<not> occupied db tid (parseDate d + timeOfDayMs (startTime a)))
               (availabilities db))"

subsection \<open>What a transition may write\<close>

text \<open>
  The columns fixed at booking, and for each transition the rows that differ
  from a given row in at most the columns that transition writes.
\<close>

definition sameBooking :: "Appointment \<Rightarrow> Appointment \<Rightarrow> bool" where
  "sameBooking a b \<longleftrightarrow>
     apptId b = apptId a \<and> userId b = userId a \<and> therapistId b = therapistId a
     \<and> scheduledAt b = scheduledAt a \<and> duration b = duration a \<and> amount b = amount a"

definition confirmWrites :: "Appointment \<Rightarrow> Appointment \<Rightarrow> bool" where
  "confirmWrites a b \<longleftrightarrow> b = a\<lparr>status := status b, confirmedAt := confirmedAt b\<rparr>"

definition cancelWrites :: "Appointment \<Rightarrow> Appointment \<Rightarrow> bool" where
  "cancelWrites a b \<longleftrightarrow>
     b = a\<lparr>status := status b, cancellationReason := cancellationReason b,
           cancelledAt := cancelledAt b\<rparr>"

definition completeWrites :: "Appointment \<Rightarrow> Appointment \<Rightarrow> bool" where
  "completeWrites a b \<longleftrightarrow>
     b = a\<lparr>status := status b, completedAt := completedAt b, sessionNotes := sessionNotes b\<rparr>"

subsection \<open>What the availability query reports\<close>

text \<open>
  The calendar day that a date string \<^verbatim>\<open>YYYY-MM-DD\<close> names, the number
  of days from the first of January 1970 to a day of the proleptic Gregorian
  calendar, and the day of the week of that day (0 is Sunday; day 0 was a
  Thursday). A date-only string denotes the midnight that begins the day in UTC.
\<close>

definition isDigit :: "char \<Rightarrow> bool" where
  "isDigit c = (48 \<le> (of_char c :: nat) \<and> (of_char c :: nat) \<le> 57)"

definition civilDate :: "string \<Rightarrow> (int \<times> int \<times> int) option" where
  "civilDate s =
     (case s of
        [y1, y2, y3, y4, c1, m1, m2, c2, d1, d2] \<Rightarrow>
          if c1 = CHR ''-'' \<and> c2 = CHR ''-''
             \<and> list_all isDigit [y1, y2, y3, y4, m1, m2, d1, d2]
          then Some (((digitOf y1 * 10 + digitOf y2) * 10 + digitOf y3) * 10 + digitOf y4,
                     digitOf m1 * 10 + digitOf m2,
                     digitOf d1 * 10 + digitOf d2)
          else None
      | _ \<Rightarrow> None)"

definition daysFromCivil :: "int \<Rightarrow> int \<Rightarrow> int \<Rightarrow> int" where
  "daysFromCivil y m d =
     (let y' = (if m \<le> 2 then y - 1 else y);
          era = y' div 400;
          yoe = y' - era * 400;
          doy = (153 * (if 2 < m then m - 3 else m + 9) + 2) div 5 + d - 1;
          doe = yoe * 365 + yoe div 4 - yoe div 100 + doy
      in era * 146097 + doe - 719468)"

definition weekday :: "int \<Rightarrow> int \<Rightarrow> int \<Rightarrow> int" where
  "weekday y m d = (daysFromCivil y m d + 4) mod 7"

text \<open>
  The recurring windows of a therapist that are active and lie on a given day of
  the week, and the non-terminal appointments of a therapist that start within
  the 24 hours from a given instant.
\<close>

definition matchingWindows :: "Db \<Rightarrow> ident \<Rightarrow> int \<Rightarrow> Slot list" where
  "matchingWindows db tid dow =
     map (\<lambda>a. \<lparr>slotStartTime = startTime a, slotEndTime = endTime a\<rparr>)
       (filter (\<lambda>a. availTherapistId a = tid \<and> isActive a \<and> dayOfWeek a = dow)
               (availabilities db))"

definition bookedOn :: "Db \<Rightarrow> ident \<Rightarrow> int \<Rightarrow> BookedSlot list" where
  "bookedOn db tid start =
     map (\<lambda>a. \<lparr>time = scheduledAt a, bookedDuration = duration a\<rparr>)
       (filter (\<lambda>a. therapistId a = tid \<and> start \<le> scheduledAt a
                  \<and> scheduledAt a < start + 86400000
                  \<and> (status a = PENDING \<or> status a = CONFIRMED))
               (appointments db))"

subsection \<open>The mean of a list of ratings\<close>


subsection \<open>Senders that always reject or always resolve\<close>

definition failing :: "Services \<Rightarrow> string \<Rightarrow> Services" where
  "failing sv msg = sv\<lparr>sendNotification := (\<lambda>n. Some msg)\<rparr>"

definition resolving :: "Services \<Rightarrow> Services" where
  "resolving sv = sv\<lparr>sendNotification := (\<lambda>n. None)\<rparr>"

text \<open>An outcome in which a normal return is replaced by the sender's error.\<close>

definition surfaced :: "string \<Rightarrow> error + 'a \<Rightarrow> error + 'a" where
  "surfaced msg r = (case r of Inl e \<Rightarrow> Inl e | Inr v \<Rightarrow> Inl (NotificationFailure msg))"

subsection \<open>A small store for concrete runs\<close>

text \<open>
  One patient, one therapist, one appointment on Saturday 2024-06-01 at 14:00 UTC
  in a given status, three earlier reviews rated 5, 3 and 4, and one weekly
  window on Saturdays from 14:00 to 15:00.
\<close>

definition exAppointment :: "AppointmentStatus \<Rightarrow> Appointment" where
  "exAppointment st =
     \<lparr>apptId = ''a1'', userId = ''u1'', therapistId = ''t1'',
      scheduledAt = 1717250400000, duration = 60, timezone = ''UTC'',
      apptType = SCHEDULED, status = st, amount = 5000, bookingNotes = None,
      sessionNotes = None, cancellationReason = None,
      confirmedAt = None, completedAt = None, cancelledAt = None\<rparr>"

definition exReview :: "ident \<Rightarrow> ident \<Rightarrow> int \<Rightarrow> Review" where
  "exReview i a n =
     \<lparr>reviewIdent = i, reviewUserId = ''u1'', reviewTherapistId = ''t1'',
      reviewAppointmentId = a, rating = n, feedback = None, tags = [],
      isAnonymous = False\<rparr>"

definition exDb :: "AppointmentStatus \<Rightarrow> Db" where
  "exDb st =
     \<lparr>users = [\<lparr>userIdent = ''u1'', firstName = Some ''Ann'', lastName = Some ''Lee''\<rparr>,
               \<lparr>userIdent = ''u2'', firstName = Some ''Bo'', lastName = Some ''Chen''\<rparr>],
      therapists = [\<lparr>therapistIdent = ''t1'', therapistUserId = ''u2'',
                     averageRating = 4, totalReviews = 3\<rparr>],
      appointments = [exAppointment st],
      reviews = [exReview ''r1'' ''b1'' 5, exReview ''r2'' ''b2'' 3, exReview ''r3'' ''b3'' 4],
      availabilities = [\<lparr>availTherapistId = ''t1'', dayOfWeek = 6, startTime = ''14:00'',
                         endTime = ''15:00'', isActive = True\<rparr>],
      blockedSlots = []\<rparr>"

text \<open>The same store after the patient has reviewed the completed appointment with one star.\<close>

definition exDbReviewed :: Db where
  "exDbReviewed =
     (exDb COMPLETED)
       \<lparr>therapists := [\<lparr>therapistIdent = ''t1'', therapistUserId = ''u2'',
                        averageRating = 13 / 4, totalReviews = 4\<rparr>],
        reviews := reviews (exDb COMPLETED) @ [exReview ''r4'' ''a1'' 1]\<rparr>"

definition exReviewData :: "int \<Rightarrow> ReviewData" where
  "exReviewData n = \<lparr>dRating = n, dFeedback = None, dTags = None, dIsAnonymous = None\<rparr>"

definition exData :: "int \<Rightarrow> CreateData" where
  "exData t =
     \<lparr>cUserId = ''u1'', cTherapistId = ''t1'', cScheduledAt = t, cDuration = 30,
      cTimezone = ''UTC'', cType = None, cBookingNotes = None, cAmount = 2500\<rparr>"

text \<open>The instants of the two dates used below, as \<^verbatim>\<open>new Date(date)\<close> reads them.\<close>

definition exParseDate :: "string \<Rightarrow> int" where
  "exParseDate s = (if s = ''2024-06-02'' then 1717286400000 else 1717200000000)"

text \<open>
  \<^verbatim>\<open>trim\<close> on ASCII text, which the names of the small stores are: the
  six ASCII white-space characters are stripped from both ends.
\<close>

definition isAsciiWhitespace :: "char \<Rightarrow> bool" where
  "isAsciiWhitespace c =
     (c \<in> set [CHR '' '', CHR 0x09, CHR 0x0A, CHR 0x0B, CHR 0x0C, CHR 0x0D])"

definition trimAscii :: "string \<Rightarrow> string" where
  "trimAscii s = rev (dropWhile isAsciiWhitespace (rev (dropWhile isAsciiWhitespace s)))"

text \<open>
  The double nearest to a real number, ties to the even significand, for zero
  and for magnitudes in the normal range of binary64: the magnitude is scaled by
  powers of two into the interval from \<open>2^52\<close> to \<open>2^53\<close>, rounded to an
  integer and scaled back.
\<close>

definition roundHalfEven :: "real \<Rightarrow> int" where
  "roundHalfEven x =
     (let f = \<lfloor>x\<rfloor>
      in if x - of_int f < 1 / 2 then f
         else if 1 / 2 < x - of_int f then f + 1
         else if even f then f else f + 1)"

fun binade :: "nat \<Rightarrow> real \<Rightarrow> int \<Rightarrow> real \<times> int" where
  "binade 0 m e = (m, e)"
| "binade (Suc n) m e =
     (if m < 2 ^ 52 then binade n (m * 2) (e - 1)
      else if 2 ^ 53 \<le> m then binade n (m / 2) (e + 1)
      else (m, e))"

definition pow2 :: "int \<Rightarrow> real" where
  "pow2 e = (if 0 \<le> e then 2 ^ nat e else 1 / 2 ^ nat (- e))"

definition nearestDouble :: "real \<Rightarrow> real" where
  "nearestDouble x =
     (if x = 0 then 0
      else case binade 2200 \<bar>x\<bar> 0 of
             (m, e) \<Rightarrow> sgn x * of_int (roundHalfEven m) * pow2 e)"

definition exServices :: "string option \<Rightarrow> Services" where
  "exServices outcome =
     \<lparr>sendNotification = (\<lambda>n. outcome), toLocaleString = (\<lambda>t tz. ''Sat, Jun 1, 2:00 PM''),
      trim = trimAscii, toDouble = nearestDouble\<rparr>"

text \<open>
  A store with two therapists: the first has reviews rated 5, 3 and 4, the second
  reviews rated 5 and 5, and the patient has a completed appointment with each.
\<close>

definition exReviewFor :: "ident \<Rightarrow> ident \<Rightarrow> ident \<Rightarrow> int \<Rightarrow> Review" where
  "exReviewFor i a t n =
     \<lparr>reviewIdent = i, reviewUserId = ''u1'', reviewTherapistId = t,
      reviewAppointmentId = a, rating = n, feedback = None, tags = [],
      isAnonymous = False\<rparr>"

definition exDbTwo :: Db where
  "exDbTwo =
     \<lparr>users = [\<lparr>userIdent = ''u1'', firstName = Some ''Ann'', lastName = Some ''Lee''\<rparr>,
               \<lparr>userIdent = ''u2'', firstName = Some ''Bo'', lastName = Some ''Chen''\<rparr>,
               \<lparr>userIdent = ''u3'', firstName = Some ''Cy'', lastName = Some ''Diaz''\<rparr>],
      therapists = [\<lparr>therapistIdent = ''t1'', therapistUserId = ''u2'',
                     averageRating = 4, totalReviews = 3\<rparr>,
                    \<lparr>therapistIdent = ''t2'', therapistUserId = ''u3'',
                     averageRating = 5, totalReviews = 2\<rparr>],
      appointments = [exAppointment COMPLETED,
                      (exAppointment COMPLETED)\<lparr>apptId := ''a2'', therapistId := ''t2''\<rparr>],
      reviews = [exReviewFor ''r1'' ''b1'' ''t1'' 5, exReviewFor ''r2'' ''b2'' ''t2'' 5,
                 exReviewFor ''r3'' ''b3'' ''t1'' 3, exReviewFor ''r4'' ''b4'' ''t2'' 5,
                 exReviewFor ''r5'' ''b5'' ''t1'' 4],
      availabilities = [],
      blockedSlots = []\<rparr>"

section \<open>Properties\<close>

subsection \<open>Refund tiers\<close>

lemma hours_gt_iff:
  "hoursUntilAppointment sched now > real_of_int h \<longleftrightarrow> sched - now > h * 3600000"
proof -
  have "real_of_int (sched - now) / 3600000 > real_of_int h
        \<longleftrightarrow> real_of_int (sched - now) > real_of_int (h * 3600000)"
    by (simp add: field_simps)
  also have "\<dots> \<longleftrightarrow> sched - now > h * 3600000"
    by (simp only: of_int_less_iff)
  finally show ?thesis
    by (simp add: hoursUntilAppointment_def)
qed

text \<open>
  C3. The refund percentage depends only on the distance in milliseconds between
  the scheduled start and the current instant: more than 24 hours gives 100, at
  most 24 hours and more than 2 hours gives 50, 2 hours or less gives 0. Exactly
  24 hours before the start gives 50 and exactly 2 hours gives 0.
\<close>

theorem refund_tiers:
  "refundPercentage sched now =
     (if sched - now > 24 * 3600000 then 100
      else if sched - now > 2 * 3600000 then 50 else 0)
   \<and> refundPercentage (now + 24 * 3600000) now = 50
   \<and> refundPercentage (now + 2 * 3600000) now = 0"
proof -
  have a: "hoursUntilAppointment sched now > 24 \<longleftrightarrow> sched - now > 24 * 3600000"
    for sched now
    using hours_gt_iff [of 24 sched now] by simp
  have b: "hoursUntilAppointment sched now > 2 \<longleftrightarrow> sched - now > 2 * 3600000"
    for sched now
    using hours_gt_iff [of 2 sched now] by simp
  show ?thesis
    by (simp add: refundPercentage_def a b)
qed

theorem refund_tiers_witness:
  "refundPercentage 90000000 0 = 100 \<and> refundPercentage 86400001 0 = 100
   \<and> refundPercentage 86400000 0 = 50 \<and> refundPercentage 10800000 0 = 50
   \<and> refundPercentage 7200000 0 = 0 \<and> refundPercentage 3600000 0 = 0"
  using refund_tiers [of 90000000 0] refund_tiers [of 86400001 0]
    refund_tiers [of 86400000 0] refund_tiers [of 10800000 0]
    refund_tiers [of 7200000 0] refund_tiers [of 3600000 0]
  by simp

subsection \<open>The store after a transition\<close>

lemmas ex_defs = exDb_def exDbReviewed_def exAppointment_def exReview_def exData_def
  exReviewData_def exServices_def exParseDate_def exDbTwo_def exReviewFor_def

lemmas write_defs = updateAppointment_def notifyThen_def

lemmas read_defs = findUser_def findTherapist_def findAppointment_def therapistUser_def
  formatDateTime_def

lemma snd_notifyThen: "snd (notifyThen sv n r db) = db"
  by (simp add: notifyThen_def split: option.splits)

lemma snd_confirm:
  "snd (confirm sv now db i uid) = db
   \<or> snd (confirm sv now db i uid)
       = updateAppointment db i (\<lambda>a. a\<lparr>status := CONFIRMED, confirmedAt := Some now\<rparr>)"
  by (simp add: confirm_def Let_def snd_notifyThen split: option.splits)

lemma snd_decline:
  "snd (decline sv now db i uid reason) = db
   \<or> (\<exists>r. snd (decline sv now db i uid reason)
            = updateAppointment db i
                (\<lambda>a. a\<lparr>status := CANCELLED, cancellationReason := Some r,
                        cancelledAt := Some now\<rparr>))"
  by (auto simp add: decline_def Let_def snd_notifyThen split: option.splits)

lemma snd_cancel:
  "snd (cancel sv now stamp db i uid reason isTherapist) = db
   \<or> snd (cancel sv now stamp db i uid reason isTherapist)
       = updateAppointment db i
           (\<lambda>a. a\<lparr>status := CANCELLED, cancellationReason := Some reason,
                   cancelledAt := Some stamp\<rparr>)"
  by (simp add: cancel_def Let_def snd_notifyThen split: option.splits)

lemma snd_complete:
  "snd (complete_appointment now db i uid sn) = db
   \<or> snd (complete_appointment now db i uid sn)
       = updateAppointment db i
           (\<lambda>a. a\<lparr>status := COMPLETED, completedAt := Some now,
                   sessionNotes := (case sn of None \<Rightarrow> sessionNotes a | Some n \<Rightarrow> Some n)\<rparr>)"
  by (simp add: complete_appointment_def Let_def split: option.splits)

lemma list_all2_updateAppointment:
  assumes "\<And>a. P a a" and "\<And>a. P a (f a)"
  shows "list_all2 P (appointments db) (appointments (updateAppointment db i f))"
  using assms by (simp add: updateAppointment_def list_all2_map2 list_all2_same)

lemma list_all2_unchanged:
  assumes "\<And>a. P a a"
  shows "list_all2 P (appointments db) (appointments db)"
  using assms by (simp add: list_all2_same)

lemma confirm_frame:
  "list_all2 (\<lambda>a b. sameBooking a b \<and> confirmWrites a b)
     (appointments db) (appointments (snd (confirm sv now db i uid)))"
  using snd_confirm [of sv now db i uid]
  by (auto simp: sameBooking_def confirmWrites_def
           intro!: list_all2_updateAppointment list_all2_unchanged)

lemma decline_frame:
  "list_all2 (\<lambda>a b. sameBooking a b \<and> cancelWrites a b)
     (appointments db) (appointments (snd (decline sv now db i uid reason)))"
  using snd_decline [of sv now db i uid reason]
  by (auto simp: sameBooking_def cancelWrites_def
           intro!: list_all2_updateAppointment list_all2_unchanged)

lemma cancel_frame:
  "list_all2 (\<lambda>a b. sameBooking a b \<and> cancelWrites a b)
     (appointments db) (appointments (snd (cancel sv now stamp db i uid reason isTherapist)))"
  using snd_cancel [of sv now stamp db i uid reason isTherapist]
  by (auto simp: sameBooking_def cancelWrites_def
           intro!: list_all2_updateAppointment list_all2_unchanged)

lemma complete_frame:
  "list_all2 (\<lambda>a b. sameBooking a b \<and> completeWrites a b)
     (appointments db) (appointments (snd (complete_appointment now db i uid sn)))"
  using snd_complete [of now db i uid sn]
  by (auto simp: sameBooking_def completeWrites_def
           intro!: list_all2_updateAppointment list_all2_unchanged)

text \<open>
  C10. Whatever its outcome, each of confirm, decline, cancel and complete leaves
  the appointment table with the same rows in the same order, and every row keeps
  its id, patient id, therapist id, scheduled start, duration and amount; a row
  differs from what it was in at most the status, the timestamp of that
  transition, and the cancellation reason (decline, cancel) or the session notes
  (complete).
\<close>

theorem transitions_write_only_their_columns:
  "list_all2 (\<lambda>a b. sameBooking a b \<and> confirmWrites a b)
     (appointments db) (appointments (snd (confirm sv now db i uid)))
   \<and> list_all2 (\<lambda>a b. sameBooking a b \<and> cancelWrites a b)
       (appointments db) (appointments (snd (decline sv now db i uid reason)))
   \<and> list_all2 (\<lambda>a b. sameBooking a b \<and> cancelWrites a b)
       (appointments db) (appointments (snd (cancel sv now stamp db i uid' reason' isTherapist)))
   \<and> list_all2 (\<lambda>a b. sameBooking a b \<and> completeWrites a b)
       (appointments db) (appointments (snd (complete_appointment now db i uid sn)))"
proof (intro conjI)
  show "list_all2 (\<lambda>a b. sameBooking a b \<and> confirmWrites a b)
          (appointments db) (appointments (snd (confirm sv now db i uid)))"
    by (rule confirm_frame)
  show "list_all2 (\<lambda>a b. sameBooking a b \<and> cancelWrites a b)
          (appointments db) (appointments (snd (decline sv now db i uid reason)))"
    by (rule decline_frame)
  show "list_all2 (\<lambda>a b. sameBooking a b \<and> cancelWrites a b)
          (appointments db)
          (appointments (snd (cancel sv now stamp db i uid' reason' isTherapist)))"
    by (rule cancel_frame)
  show "list_all2 (\<lambda>a b. sameBooking a b \<and> completeWrites a b)
          (appointments db) (appointments (snd (complete_appointment now db i uid sn)))"
    by (rule complete_frame)
qed

theorem transitions_write_only_their_columns_witness:
  "list_all2 (\<lambda>a b. sameBooking a b \<and> cancelWrites a b)
     (appointments (exDb CONFIRMED))
     (appointments (snd (cancel (exServices None) 0 1 (exDb CONFIRMED) ''a1'' ''u1'' ''busy'' False)))
   \<and> map amount (appointments (snd (cancel (exServices None) 0 1 (exDb CONFIRMED)
                                      ''a1'' ''u1'' ''busy'' False))) = [5000]
   \<and> map status (appointments (snd (cancel (exServices None) 0 1 (exDb CONFIRMED)
                                      ''a1'' ''u1'' ''busy'' False))) = [CANCELLED]"
proof -
  have "map amount (appointments (snd (cancel (exServices None) 0 1 (exDb CONFIRMED)
                                      ''a1'' ''u1'' ''busy'' False))) = [5000]"
    by (simp add: cancel_def ex_defs read_defs updateAppointment_def notifyThen_def Let_def)
  moreover have "map status (appointments (snd (cancel (exServices None) 0 1 (exDb CONFIRMED)
                                      ''a1'' ''u1'' ''busy'' False))) = [CANCELLED]"
    by (simp add: cancel_def ex_defs read_defs updateAppointment_def notifyThen_def Let_def)
  ultimately show ?thesis
    using transitions_write_only_their_columns
      [of "exDb CONFIRMED" "exServices None" 0 "''a1''" "''u2''" None 1 "''u1''" "''busy''" False None]
    by blast
qed

subsection \<open>Transitions out of a terminal status\<close>

text \<open>
  C1. A terminal appointment should reject every further transition and stay as
  it is. Run on the small store: the patient cancels the PENDING appointment, and
  the therapist then completes the CANCELLED appointment; the second call returns
  normally and rewrites the row to COMPLETED. Likewise the patient cancels a
  \<^verbatim>\<open>NO_SHOW\<close> appointment and the call returns normally.
\<close>

theorem terminal_appointment_still_transitions:
  "cancel (exServices None) 4 7 (exDb PENDING) ''a1'' ''u1'' ''busy'' False
     = (Inr ((exAppointment CANCELLED)\<lparr>cancellationReason := Some ''busy'',
                                         cancelledAt := Some 7\<rparr>),
        (exDb PENDING)\<lparr>appointments :=
           [(exAppointment CANCELLED)\<lparr>cancellationReason := Some ''busy'',
                                       cancelledAt := Some 7\<rparr>]\<rparr>)
   \<and> complete_appointment 9
        ((exDb PENDING)\<lparr>appointments :=
           [(exAppointment CANCELLED)\<lparr>cancellationReason := Some ''busy'',
                                       cancelledAt := Some 7\<rparr>]\<rparr>)
        ''a1'' ''u2'' None
     = (Inr ((exAppointment COMPLETED)\<lparr>cancellationReason := Some ''busy'',
                                         cancelledAt := Some 7, completedAt := Some 9\<rparr>),
        (exDb PENDING)\<lparr>appointments :=
           [(exAppointment COMPLETED)\<lparr>cancellationReason := Some ''busy'',
                                       cancelledAt := Some 7, completedAt := Some 9\<rparr>]\<rparr>)
   \<and> cancel (exServices None) 4 7 (exDb NO_SHOW) ''a1'' ''u1'' ''busy'' False
     = (Inr ((exAppointment CANCELLED)\<lparr>cancellationReason := Some ''busy'',
                                         cancelledAt := Some 7\<rparr>),
        (exDb NO_SHOW)\<lparr>appointments :=
           [(exAppointment CANCELLED)\<lparr>cancellationReason := Some ''busy'',
                                       cancelledAt := Some 7\<rparr>]\<rparr>)"
proof (intro conjI)
  show "cancel (exServices None) 4 7 (exDb PENDING) ''a1'' ''u1'' ''busy'' False
     = (Inr ((exAppointment CANCELLED)\<lparr>cancellationReason := Some ''busy'',
                                         cancelledAt := Some 7\<rparr>),
        (exDb PENDING)\<lparr>appointments :=
           [(exAppointment CANCELLED)\<lparr>cancellationReason := Some ''busy'',
                                       cancelledAt := Some 7\<rparr>]\<rparr>)"
    by (simp add: cancel_def ex_defs read_defs write_defs Let_def)
  show "complete_appointment 9
        ((exDb PENDING)\<lparr>appointments :=
           [(exAppointment CANCELLED)\<lparr>cancellationReason := Some ''busy'',
                                       cancelledAt := Some 7\<rparr>]\<rparr>)
        ''a1'' ''u2'' None
     = (Inr ((exAppointment COMPLETED)\<lparr>cancellationReason := Some ''busy'',
                                         cancelledAt := Some 7, completedAt := Some 9\<rparr>),
        (exDb PENDING)\<lparr>appointments :=
           [(exAppointment COMPLETED)\<lparr>cancellationReason := Some ''busy'',
                                       cancelledAt := Some 7, completedAt := Some 9\<rparr>]\<rparr>)"
    by (simp add: complete_appointment_def ex_defs read_defs write_defs Let_def)
  show "cancel (exServices None) 4 7 (exDb NO_SHOW) ''a1'' ''u1'' ''busy'' False
     = (Inr ((exAppointment CANCELLED)\<lparr>cancellationReason := Some ''busy'',
                                         cancelledAt := Some 7\<rparr>),
        (exDb NO_SHOW)\<lparr>appointments :=
           [(exAppointment CANCELLED)\<lparr>cancellationReason := Some ''busy'',
                                       cancelledAt := Some 7\<rparr>]\<rparr>)"
    by (simp add: cancel_def ex_defs read_defs write_defs Let_def)
qed

text \<open>
  C2. Completion should be refused unless the appointment is CONFIRMED. Run on
  the small store: the therapist completes a PENDING appointment; the call
  returns normally, the status becomes COMPLETED, the completion time is set and
  the session notes are attached.
\<close>

theorem pending_appointment_completes:
  "complete_appointment 5 (exDb PENDING) ''a1'' ''u2'' (Some ''went well'')
     = (Inr ((exAppointment PENDING)\<lparr>status := COMPLETED, completedAt := Some 5,
                                       sessionNotes := Some ''went well''\<rparr>),
        (exDb PENDING)\<lparr>appointments :=
           [(exAppointment PENDING)\<lparr>status := COMPLETED, completedAt := Some 5,
                                     sessionNotes := Some ''went well''\<rparr>]\<rparr>)"
  by (simp add: complete_appointment_def ex_defs read_defs write_defs Let_def)

subsection \<open>What cancel hands back\<close>

text \<open>
  C4. A cancellation should hand the refund percentage to its caller. The
  outcome of cancel is the same whatever the current instant is, so it carries
  nothing of the refund tier: thirty hours before the start the tier is 100, and
  the call returns the cancelled row, which has no such column.
\<close>

theorem cancel_result_without_refund:
  "cancel sv now stamp db i uid reason isTherapist
     = cancel sv now' stamp db i uid reason isTherapist
   \<and> refundPercentage (scheduledAt (exAppointment CONFIRMED))
        (scheduledAt (exAppointment CONFIRMED) - 30 * 3600000) = 100
   \<and> fst (cancel (exServices None) (scheduledAt (exAppointment CONFIRMED) - 30 * 3600000) 7
             (exDb CONFIRMED) ''a1'' ''u1'' ''busy'' False)
     = Inr ((exAppointment CONFIRMED)\<lparr>status := CANCELLED, cancellationReason := Some ''busy'',
                                        cancelledAt := Some 7\<rparr>)"
proof (intro conjI)
  show "cancel sv now stamp db i uid reason isTherapist
     = cancel sv now' stamp db i uid reason isTherapist"
    by (simp add: cancel_def Let_def split: option.splits)
  show "refundPercentage (scheduledAt (exAppointment CONFIRMED))
        (scheduledAt (exAppointment CONFIRMED) - 30 * 3600000) = 100"
    by (simp add: refundPercentage_def hoursUntilAppointment_def ex_defs)
  show "fst (cancel (exServices None) (scheduledAt (exAppointment CONFIRMED) - 30 * 3600000) 7
             (exDb CONFIRMED) ''a1'' ''u1'' ''busy'' False)
     = Inr ((exAppointment CONFIRMED)\<lparr>status := CANCELLED, cancellationReason := Some ''busy'',
                                        cancelledAt := Some 7\<rparr>)"
    by (simp add: cancel_def ex_defs read_defs write_defs Let_def)
qed

subsection \<open>A notification that fails\<close>

lemma create_failing:
  "create (failing sv msg) newId db d
   = (surfaced msg (fst (create (resolving sv) newId db d)),
      snd (create (resolving sv) newId db d))"
  by (simp add: create_def failing_def resolving_def surfaced_def notifyThen_def
        formatDateTime_def Let_def split: option.splits)

lemma confirm_failing:
  "confirm (failing sv msg) now db i uid
   = (surfaced msg (fst (confirm (resolving sv) now db i uid)),
      snd (confirm (resolving sv) now db i uid))"
  by (simp add: confirm_def failing_def resolving_def surfaced_def notifyThen_def
        formatDateTime_def Let_def split: option.splits)

lemma decline_failing:
  "decline (failing sv msg) now db i uid reason
   = (surfaced msg (fst (decline (resolving sv) now db i uid reason)),
      snd (decline (resolving sv) now db i uid reason))"
  by (simp add: decline_def failing_def resolving_def surfaced_def notifyThen_def
        formatDateTime_def Let_def split: option.splits)

lemma cancel_failing:
  "cancel (failing sv msg) now stamp db i uid reason isTherapist
   = (surfaced msg (fst (cancel (resolving sv) now stamp db i uid reason isTherapist)),
      snd (cancel (resolving sv) now stamp db i uid reason isTherapist))"
  by (simp add: cancel_def failing_def resolving_def surfaced_def notifyThen_def
        formatDateTime_def Let_def split: option.splits)

text \<open>
  C8, as stated, fails: with a sender that rejects, confirming a PENDING
  appointment and booking a free slot both end in the sender's error.
\<close>

theorem notification_failure_surfaces:
  "fst (confirm (exServices (Some ''push failed'')) 5 (exDb PENDING) ''a1'' ''u2'')
     = Inl (NotificationFailure ''push failed'')
   \<and> fst (create (exServices (Some ''push failed'')) ''a2'' (exDb CANCELLED)
            (exData 1717250400000))
     = Inl (NotificationFailure ''push failed'')"
  by (simp add: confirm_def create_def conflicting_def newAppointment_def ex_defs read_defs
        write_defs Let_def)

text \<open>
  C8, amended. With a sender that rejects every call, create, confirm, decline
  and cancel leave behind exactly the store they leave behind with a sender that
  resolves, so a committed change is not rolled back; their outcome is the same
  error where the operation fails anyway, and the sender's error where it would
  have returned normally.
\<close>

theorem notification_failure_propagates:
  "create (failing sv msg) newId db d
     = (surfaced msg (fst (create (resolving sv) newId db d)),
        snd (create (resolving sv) newId db d))
   \<and> confirm (failing sv msg) now db i uid
     = (surfaced msg (fst (confirm (resolving sv) now db i uid)),
        snd (confirm (resolving sv) now db i uid))
   \<and> decline (failing sv msg) now db i uid reason
     = (surfaced msg (fst (decline (resolving sv) now db i uid reason)),
        snd (decline (resolving sv) now db i uid reason))
   \<and> cancel (failing sv msg) now stamp db i uid' reason' isTherapist
     = (surfaced msg (fst (cancel (resolving sv) now stamp db i uid' reason' isTherapist)),
        snd (cancel (resolving sv) now stamp db i uid' reason' isTherapist))"
proof (intro conjI)
  show "create (failing sv msg) newId db d
     = (surfaced msg (fst (create (resolving sv) newId db d)),
        snd (create (resolving sv) newId db d))"
    by (rule create_failing)
  show "confirm (failing sv msg) now db i uid
     = (surfaced msg (fst (confirm (resolving sv) now db i uid)),
        snd (confirm (resolving sv) now db i uid))"
    by (rule confirm_failing)
  show "decline (failing sv msg) now db i uid reason
     = (surfaced msg (fst (decline (resolving sv) now db i uid reason)),
        snd (decline (resolving sv) now db i uid reason))"
    by (rule decline_failing)
  show "cancel (failing sv msg) now stamp db i uid' reason' isTherapist
     = (surfaced msg (fst (cancel (resolving sv) now stamp db i uid' reason' isTherapist)),
        snd (cancel (resolving sv) now stamp db i uid' reason' isTherapist))"
    by (rule cancel_failing)
qed

theorem notification_failure_propagates_witness:
  "confirm (failing (exServices None) ''push failed'') 5 (exDb PENDING) ''a1'' ''u2''
     = (Inl (NotificationFailure ''push failed''),
        (exDb PENDING)\<lparr>appointments :=
           [(exAppointment PENDING)\<lparr>status := CONFIRMED, confirmedAt := Some 5\<rparr>]\<rparr>)"
proof -
  have "confirm (resolving (exServices None)) 5 (exDb PENDING) ''a1'' ''u2''
     = (Inr ((exAppointment PENDING)\<lparr>status := CONFIRMED, confirmedAt := Some 5\<rparr>),
        (exDb PENDING)\<lparr>appointments :=
           [(exAppointment PENDING)\<lparr>status := CONFIRMED, confirmedAt := Some 5\<rparr>]\<rparr>)"
    by (simp add: confirm_def resolving_def ex_defs read_defs write_defs Let_def)
  with notification_failure_propagates
         [of "exServices None" "''push failed''" "''a2''" "exDb PENDING" "exData 0" 5
             "''a1''" "''u2''" None 7 "''u1''" "''busy''" False]
  show ?thesis
    by (simp add: surfaced_def)
qed

subsection \<open>Booking\<close>

lemma findTherapist_None_iff:
  "findTherapist db i = None \<longleftrightarrow> i \<notin> set (map therapistIdent (therapists db))"
  by (auto simp: findTherapist_def find_None_iff)

lemma conflicting_Some_iff:
  "conflicting db d \<noteq> None \<longleftrightarrow>
     (\<exists>a \<in> set (appointments db).
        therapistId a = cTherapistId d \<and> scheduledAt a = cScheduledAt d
        \<and> (status a = PENDING \<or> status a = CONFIRMED))"
  by (auto simp: conflicting_def find_None_iff)

lemma create_unknown_therapist:
  assumes "findTherapist db (cTherapistId d) = None"
  shows "create sv newId db d = (Inl (NotFoundException ''Therapist not found''), db)"
  using assms by (simp add: create_def)

lemma create_conflict:
  assumes "findTherapist db (cTherapistId d) \<noteq> None" and "conflicting db d \<noteq> None"
  shows "create sv newId db d = (Inl (BadRequestException ''Time slot is not available''), db)"
  using assms by (auto simp: create_def)

lemma create_free:
  assumes "findTherapist db (cTherapistId d) \<noteq> None" and "conflicting db d = None"
  shows "snd (create sv newId db d)
           = db\<lparr>appointments := appointments db @ [newAppointment newId d]\<rparr>"
    and "fst (create sv newId db d) = Inr (newAppointment newId d)
         \<or> fst (create sv newId db d) = Inl TypeError
         \<or> (\<exists>msg. fst (create sv newId db d) = Inl (NotificationFailure msg))"
  using assms
  by (auto simp: create_def Let_def notifyThen_def split: option.splits)

text \<open>
  C5. Booking with an unknown therapist id fails with NotFound and writes
  nothing. For a known therapist it fails with the slot error (the
  \<^verbatim>\<open>BadRequestException\<close> "Time slot is not available", which is what the
  specification calls Conflict) exactly when some stored appointment of that
  therapist has the same scheduled instant and status PENDING or CONFIRMED, and
  then writes nothing; in every other case the new row, with status PENDING and
  the requested therapist and instant, is appended to the appointment table, and
  a normal return hands back that row.
\<close>

theorem create_outcomes:
  "(cTherapistId d \<notin> set (map therapistIdent (therapists db)) \<longrightarrow>
      create sv newId db d = (Inl (NotFoundException ''Therapist not found''), db))
   \<and> (cTherapistId d \<in> set (map therapistIdent (therapists db)) \<longrightarrow>
        (fst (create sv newId db d) = Inl (BadRequestException ''Time slot is not available'')
           \<longleftrightarrow> (\<exists>a \<in> set (appointments db).
                  therapistId a = cTherapistId d \<and> scheduledAt a = cScheduledAt d
                  \<and> (status a = PENDING \<or> status a = CONFIRMED)))
        \<and> (fst (create sv newId db d) = Inl (BadRequestException ''Time slot is not available'')
             \<longrightarrow> snd (create sv newId db d) = db)
        \<and> (fst (create sv newId db d) \<noteq> Inl (BadRequestException ''Time slot is not available'')
             \<longrightarrow> appointments (snd (create sv newId db d))
                   = appointments db @ [newAppointment newId d]
                 \<and> status (newAppointment newId d) = PENDING
                 \<and> therapistId (newAppointment newId d) = cTherapistId d
                 \<and> scheduledAt (newAppointment newId d) = cScheduledAt d
                 \<and> (\<forall>a. fst (create sv newId db d) = Inr a \<longrightarrow> a = newAppointment newId d)))"
proof (intro conjI impI)
  assume "cTherapistId d \<notin> set (map therapistIdent (therapists db))"
  then show "create sv newId db d = (Inl (NotFoundException ''Therapist not found''), db)"
    by (simp only: findTherapist_None_iff [symmetric] create_unknown_therapist)
next
  assume known: "cTherapistId d \<in> set (map therapistIdent (therapists db))"
  then have t: "findTherapist db (cTherapistId d) \<noteq> None"
    by (simp only: findTherapist_None_iff) simp
  show "fst (create sv newId db d) = Inl (BadRequestException ''Time slot is not available'')
        \<longleftrightarrow> (\<exists>a \<in> set (appointments db).
               therapistId a = cTherapistId d \<and> scheduledAt a = cScheduledAt d
               \<and> (status a = PENDING \<or> status a = CONFIRMED))"
  proof (cases "conflicting db d = None")
    case True
    with create_free(2) [OF t True, of sv newId] conflicting_Some_iff [of db d]
    show ?thesis by auto
  next
    case False
    with create_conflict [OF t False, of sv newId] conflicting_Some_iff [of db d]
    show ?thesis by auto
  qed
next
  assume known: "cTherapistId d \<in> set (map therapistIdent (therapists db))"
    and bad: "fst (create sv newId db d) = Inl (BadRequestException ''Time slot is not available'')"
  then have t: "findTherapist db (cTherapistId d) \<noteq> None"
    by (simp only: findTherapist_None_iff) simp
  show "snd (create sv newId db d) = db"
  proof (cases "conflicting db d = None")
    case True
    with create_free(2) [OF t True, of sv newId] bad show ?thesis by auto
  next
    case False
    with create_conflict [OF t False, of sv newId] show ?thesis by simp
  qed
next
  assume known: "cTherapistId d \<in> set (map therapistIdent (therapists db))"
    and ok: "fst (create sv newId db d) \<noteq> Inl (BadRequestException ''Time slot is not available'')"
  then have t: "findTherapist db (cTherapistId d) \<noteq> None"
    by (simp only: findTherapist_None_iff) simp
  have free: "conflicting db d = None"
  proof (rule ccontr)
    assume "conflicting db d \<noteq> None"
    from create_conflict [OF t this, of sv newId] ok show False by simp
  qed
  show "appointments (snd (create sv newId db d)) = appointments db @ [newAppointment newId d]"
    by (simp add: create_free(1) [OF t free])
  show "status (newAppointment newId d) = PENDING"
    "therapistId (newAppointment newId d) = cTherapistId d"
    "scheduledAt (newAppointment newId d) = cScheduledAt d"
    by (simp_all add: newAppointment_def)
  show "\<forall>a. fst (create sv newId db d) = Inr a \<longrightarrow> a = newAppointment newId d"
    using create_free(2) [OF t free, of sv newId] by auto
qed

text \<open>
  On the small store: a CANCELLED appointment at the requested instant does not
  block and the new PENDING row is appended; a PENDING one at that instant does
  block; a PENDING one a quarter of an hour earlier, still running, does not.
\<close>

theorem create_outcomes_witness:
  "fst (create (exServices None) ''a2'' (exDb CANCELLED) (exData 1717250400000))
     = Inr (newAppointment ''a2'' (exData 1717250400000))
   \<and> appointments (snd (create (exServices None) ''a2'' (exDb CANCELLED) (exData 1717250400000)))
     = [exAppointment CANCELLED, newAppointment ''a2'' (exData 1717250400000)]
   \<and> status (newAppointment ''a2'' (exData 1717250400000)) = PENDING
   \<and> create (exServices None) ''a2'' (exDb PENDING) (exData 1717250400000)
     = (Inl (BadRequestException ''Time slot is not available''), exDb PENDING)
   \<and> fst (create (exServices None) ''a2'' (exDb PENDING) (exData 1717251300000))
     = Inr (newAppointment ''a2'' (exData 1717251300000))
   \<and> create (exServices None) ''a2'' (exDb PENDING) ((exData 1717250400000)\<lparr>cTherapistId := ''t9''\<rparr>)
     = (Inl (NotFoundException ''Therapist not found''), exDb PENDING)"
proof -
  have known: "cTherapistId (exData t) \<in> set (map therapistIdent (therapists (exDb st)))"
    for t st
    by (simp add: ex_defs)
  have unknown: "cTherapistId ((exData 1717250400000)\<lparr>cTherapistId := ''t9''\<rparr>)
                 \<notin> set (map therapistIdent (therapists (exDb PENDING)))"
    by (simp add: ex_defs)
  have r1: "fst (create (exServices None) ''a2'' (exDb CANCELLED) (exData 1717250400000))
     = Inr (newAppointment ''a2'' (exData 1717250400000))"
    by (simp add: create_def conflicting_def newAppointment_def patientNameOr_def ex_defs
          read_defs write_defs Let_def)
  have r3: "fst (create (exServices None) ''a2'' (exDb PENDING) (exData 1717251300000))
     = Inr (newAppointment ''a2'' (exData 1717251300000))"
    by (simp add: create_def conflicting_def newAppointment_def patientNameOr_def ex_defs
          read_defs write_defs Let_def)
  have busy: "\<exists>a \<in> set (appointments (exDb PENDING)).
                therapistId a = cTherapistId (exData 1717250400000)
                \<and> scheduledAt a = cScheduledAt (exData 1717250400000)
                \<and> (status a = PENDING \<or> status a = CONFIRMED)"
    by (simp add: ex_defs)
  have apps: "appointments (exDb CANCELLED) = [exAppointment CANCELLED]"
    by (simp add: ex_defs)
  note c1 = create_outcomes [of "exData 1717250400000" "exDb CANCELLED" "exServices None" "''a2''"]
  note c2 = create_outcomes [of "exData 1717250400000" "exDb PENDING" "exServices None" "''a2''"]
  note c4 = create_outcomes [of "(exData 1717250400000)\<lparr>cTherapistId := ''t9''\<rparr>" "exDb PENDING"
                                "exServices None" "''a2''"]
  from c1 known r1 apps
  have a: "appointments (snd (create (exServices None) ''a2'' (exDb CANCELLED) (exData 1717250400000)))
             = [exAppointment CANCELLED, newAppointment ''a2'' (exData 1717250400000)]"
    and b: "status (newAppointment ''a2'' (exData 1717250400000)) = PENDING"
    by simp_all
  from c2 known busy
  have "fst (create (exServices None) ''a2'' (exDb PENDING) (exData 1717250400000))
          = Inl (BadRequestException ''Time slot is not available'')"
    and "snd (create (exServices None) ''a2'' (exDb PENDING) (exData 1717250400000)) = exDb PENDING"
    by blast+
  then have c: "create (exServices None) ''a2'' (exDb PENDING) (exData 1717250400000)
     = (Inl (BadRequestException ''Time slot is not available''), exDb PENDING)"
    by (simp add: prod_eq_iff)
  from c4 unknown
  have d: "create (exServices None) ''a2'' (exDb PENDING) ((exData 1717250400000)\<lparr>cTherapistId := ''t9''\<rparr>)
     = (Inl (NotFoundException ''Therapist not found''), exDb PENDING)"
    by blast
  from r1 a b c r3 d show ?thesis by blast
qed

subsection \<open>Reviews\<close>

lemma binade_numeral:
  "binade (numeral k) m e =
     (if m < 2 ^ 52 then binade (pred_numeral k) (m * 2) (e - 1)
      else if 2 ^ 53 \<le> m then binade (pred_numeral k) (m / 2) (e + 1)
      else (m, e))"
  by (simp add: numeral_eq_Suc)

lemmas double_defs = nearestDouble_def binade_numeral roundHalfEven_def pow2_def

lemma addReview_Inr:
  assumes "addReview sv newId db aid uid d = (Inr r, db')"
  shows "\<exists>a db1. findAppointment db aid = Some a \<and> userId a = uid \<and> status a = COMPLETED
           \<and> r = newReview newId uid a aid d
           \<and> reviewCreate db r = Inr db1
           \<and> updateTherapist db1 (therapistId a) (withStats sv (reviewsOf db1 (therapistId a)))
               = Inr db'"
proof (cases "findAppointment db aid")
  case None
  with assms show ?thesis by (simp add: addReview_def)
next
  case (Some a)
  from assms Some have g: "userId a = uid" "status a = COMPLETED"
    by (auto simp: addReview_def split: if_splits)
  let ?r = "newReview newId uid a aid d"
  show ?thesis
  proof (cases "reviewCreate db ?r")
    case (Inl e)
    with assms Some g show ?thesis by (simp add: addReview_def)
  next
    case (Inr db1)
    show ?thesis
    proof (cases "updateTherapist db1 (therapistId a)
                    (withStats sv (reviewsOf db1 (therapistId a)))")
      case (Inl e)
      with assms Some g Inr show ?thesis by (simp add: addReview_def)
    next
      case r2: (Inr db2)
      with assms Some g Inr have "r = ?r" "db' = db2" by (simp_all add: addReview_def)
      with Some g Inr r2 show ?thesis by simp
    qed
  qed
qed

lemma reviewCreate_Inr:
  assumes "reviewCreate db r = Inr db1"
  shows "reviewAppointmentId r \<notin> set (map reviewAppointmentId (reviews db))"
    and "db1 = db\<lparr>reviews := reviews db @ [r]\<rparr>"
  using assms by (auto simp: reviewCreate_def split: if_splits)

lemma updateTherapist_Inr:
  assumes "updateTherapist db1 i g = Inr db2"
  shows "therapists db2 = map (\<lambda>t. if therapistIdent t = i then g t else t) (therapists db1)"
    and "i \<in> set (map therapistIdent (therapists db1))"
    and "reviews db2 = reviews db1" and "appointments db2 = appointments db1"
proof -
  from assms have t: "findTherapist db1 i \<noteq> None"
    and db2: "db2 = db1\<lparr>therapists :=
                         map (\<lambda>t. if therapistIdent t = i then g t else t) (therapists db1)\<rparr>"
    by (auto simp: updateTherapist_def split: option.splits)
  show "therapists db2 = map (\<lambda>t. if therapistIdent t = i then g t else t) (therapists db1)"
    "reviews db2 = reviews db1" "appointments db2 = appointments db1"
    by (simp_all add: db2)
  from t show "i \<in> set (map therapistIdent (therapists db1))"
    by (simp only: findTherapist_None_iff) simp
qed


lemma ex_addReview:
  "addReview (exServices None) ''r4'' (exDb COMPLETED) ''a1'' ''u1'' (exReviewData 1)
     = (Inr (exReview ''r4'' ''a1'' 1), exDbReviewed)"
  by (simp add: addReview_def newReview_def withStats_def reviewCreate_def updateTherapist_def
        reviewsOf_def aggregateAvg_def aggregateCount_def ex_defs read_defs double_defs Let_def)




lemma reviewCreate_duplicate:
  assumes "aid \<in> set (map reviewAppointmentId (reviews db))"
  shows "reviewCreate db (newReview newId uid a aid d) = Inl UniqueConstraintViolation"
  using assms by (simp add: reviewCreate_def newReview_def)

lemma addReview_duplicate:
  assumes "aid \<in> set (map reviewAppointmentId (reviews db))"
  shows "snd (addReview sv newId db aid uid d) = db"
    and "isl (fst (addReview sv newId db aid uid d))"
    and "findAppointment db aid = Some a \<Longrightarrow> userId a = uid \<Longrightarrow> status a = COMPLETED
         \<Longrightarrow> addReview sv newId db aid uid d = (Inl UniqueConstraintViolation, db)"
  using reviewCreate_duplicate [OF assms]
  by (simp_all add: addReview_def Let_def split: option.splits)

lemma addReview_then_duplicate:
  assumes "addReview sv newId db aid uid d = (Inr r, db')"
  shows "addReview sv' newId' db' aid uid d' = (Inl UniqueConstraintViolation, db')"
proof -
  from addReview_Inr [OF assms] obtain a db1 where
    a: "findAppointment db aid = Some a" "userId a = uid" "status a = COMPLETED"
    and r: "r = newReview newId uid a aid d"
    and c: "reviewCreate db r = Inr db1"
    and u: "updateTherapist db1 (therapistId a) (withStats sv (reviewsOf db1 (therapistId a)))
              = Inr db'"
    by blast
  have db1: "db1 = db\<lparr>reviews := reviews db @ [r]\<rparr>"
    by (rule reviewCreate_Inr(2) [OF c])
  have "appointments db' = appointments db" "reviews db' = reviews db @ [r]"
    using updateTherapist_Inr(3,4) [OF u] by (simp_all add: db1)
  then have "findAppointment db' aid = Some a"
    and "aid \<in> set (map reviewAppointmentId (reviews db'))"
    using a(1) by (simp_all add: findAppointment_def r newReview_def)
  then show ?thesis
    using addReview_duplicate(3) a(2,3) by blast
qed

lemma reviews_snd_addReview:
  "reviews (snd (addReview sv newId db aid uid d)) = reviews db
   \<or> (aid \<notin> set (map reviewAppointmentId (reviews db))
      \<and> (\<exists>r. reviewAppointmentId r = aid
             \<and> reviews (snd (addReview sv newId db aid uid d)) = reviews db @ [r]))"
proof (cases "findAppointment db aid")
  case None
  then show ?thesis by (simp add: addReview_def)
next
  case (Some a)
  let ?r = "newReview newId uid a aid d"
  show ?thesis
  proof (cases "reviewCreate db ?r")
    case (Inl e)
    with Some show ?thesis by (simp add: addReview_def)
  next
    case (Inr db1)
    have db1: "db1 = db\<lparr>reviews := reviews db @ [?r]\<rparr>"
      and fresh: "aid \<notin> set (map reviewAppointmentId (reviews db))"
      using reviewCreate_Inr [OF Inr] by (simp_all add: newReview_def)
    have aid: "reviewAppointmentId ?r = aid" by (simp add: newReview_def)
    show ?thesis
    proof (cases "updateTherapist db1 (therapistId a)
                    (withStats sv (reviewsOf db1 (therapistId a)))")
      case (Inl e)
      with Some Inr db1 fresh aid show ?thesis
        by (auto simp: addReview_def Let_def)
    next
      case r2: (Inr db2)
      have "reviews db2 = reviews db @ [?r]"
        using updateTherapist_Inr(3) [OF r2] by (simp add: db1)
      with Some Inr r2 fresh aid show ?thesis
        by (auto simp: addReview_def Let_def)
    qed
  qed
qed

lemma addReview_distinct:
  assumes "distinct (map reviewAppointmentId (reviews db))"
  shows "distinct (map reviewAppointmentId (reviews (snd (addReview sv newId db aid uid d))))"
  using reviews_snd_addReview [of sv newId db aid uid d] assms by auto

text \<open>
  C7. When the appointment already has a review, a further submission fails and
  leaves the whole store, and with it the therapist's averageRating and
  totalReviews, as they were. Submitted by the same patient right after an
  accepted review, it fails with the uniqueness violation of the store (the
  Conflict of the specification). If no two stored reviews share an appointment,
  none do after any submission.
\<close>

theorem second_review_rejected:
  "(aid \<in> set (map reviewAppointmentId (reviews db)) \<longrightarrow>
      snd (addReview sv newId db aid uid d) = db
      \<and> isl (fst (addReview sv newId db aid uid d)))
   \<and> (addReview sv newId db aid uid d = (Inr r, db') \<longrightarrow>
        addReview sv' newId' db' aid uid d' = (Inl UniqueConstraintViolation, db'))
   \<and> (distinct (map reviewAppointmentId (reviews db)) \<longrightarrow>
        distinct (map reviewAppointmentId (reviews (snd (addReview sv newId db aid uid d)))))"
proof (intro conjI impI)
  assume "aid \<in> set (map reviewAppointmentId (reviews db))"
  then show "snd (addReview sv newId db aid uid d) = db"
    and "isl (fst (addReview sv newId db aid uid d))"
    by (rule addReview_duplicate(1), rule addReview_duplicate(2))
next
  assume "addReview sv newId db aid uid d = (Inr r, db')"
  then show "addReview sv' newId' db' aid uid d' = (Inl UniqueConstraintViolation, db')"
    by (rule addReview_then_duplicate)
next
  assume "distinct (map reviewAppointmentId (reviews db))"
  then show "distinct (map reviewAppointmentId
                         (reviews (snd (addReview sv newId db aid uid d))))"
    by (rule addReview_distinct)
qed

theorem second_review_rejected_witness:
  "addReview (exServices None) ''r4'' (exDb COMPLETED) ''a1'' ''u1'' (exReviewData 1)
     = (Inr (exReview ''r4'' ''a1'' 1), exDbReviewed)
   \<and> addReview (exServices None) ''r5'' exDbReviewed ''a1'' ''u1'' (exReviewData 5)
     = (Inl UniqueConstraintViolation, exDbReviewed)
   \<and> ''a1'' \<in> set (map reviewAppointmentId (reviews exDbReviewed))
   \<and> snd (addReview (exServices None) ''r5'' exDbReviewed ''a1'' ''u1'' (exReviewData 5))
     = exDbReviewed
   \<and> distinct (map reviewAppointmentId (reviews (exDb COMPLETED)))
   \<and> distinct (map reviewAppointmentId
                 (reviews (snd (addReview (exServices None) ''r4'' (exDb COMPLETED) ''a1'' ''u1''
                                  (exReviewData 1)))))"
proof -
  note first = second_review_rejected
    [where aid = "''a1''" and db = "exDb COMPLETED" and sv = "exServices None"
       and newId = "''r4''" and uid = "''u1''"
       and d = "exReviewData 1" and r = "exReview ''r4'' ''a1'' 1" and db' = exDbReviewed
       and sv' = "exServices None" and newId' = "''r5''" and d' = "exReviewData 5"]
  note again = second_review_rejected
    [where aid = "''a1''" and db = exDbReviewed and sv = "exServices None"
       and newId = "''r5''" and uid = "''u1''" and d = "exReviewData 5"]
  have stored: "''a1'' \<in> set (map reviewAppointmentId (reviews exDbReviewed))"
    by (simp add: ex_defs)
  have dist: "distinct (map reviewAppointmentId (reviews (exDb COMPLETED)))"
    by (simp add: ex_defs)
  from first ex_addReview
  have a: "addReview (exServices None) ''r5'' exDbReviewed ''a1'' ''u1'' (exReviewData 5)
             = (Inl UniqueConstraintViolation, exDbReviewed)"
    by blast
  from again stored
  have b: "snd (addReview (exServices None) ''r5'' exDbReviewed ''a1'' ''u1'' (exReviewData 5))
             = exDbReviewed"
    by blast
  from first dist
  have c: "distinct (map reviewAppointmentId
                 (reviews (snd (addReview (exServices None) ''r4'' (exDb COMPLETED) ''a1'' ''u1''
                                  (exReviewData 1)))))"
    by blast
  from ex_addReview a stored b dist c show ?thesis by blast
qed

subsection \<open>Availability\<close>

lemma getAvailableSlots_unknown:
  assumes "findTherapist db tid = None"
  shows "getAvailableSlots P tz db tid d = Inl (NotFoundException ''Therapist not found'')"
  using assms by (simp add: getAvailableSlots_def)

lemma getAvailableSlots_known:
  assumes "findTherapist db tid \<noteq> None"
  shows "getAvailableSlots P tz db tid d =
     Inr \<lparr>date = d, slots = matchingWindows db tid (getDay tz (P d)),
          bookedSlots = bookedOn db tid (P d)\<rparr>"
proof -
  have c: "(\<lambda>a. dayOfWeek a = getDay tz (P d) \<and> availTherapistId a = tid \<and> isActive a)
         = (\<lambda>a. availTherapistId a = tid \<and> isActive a \<and> dayOfWeek a = getDay tz (P d))"
    by auto
  from assms show ?thesis
    by (auto simp: getAvailableSlots_def matchingWindows_def bookedOn_def Let_def c)
qed

text \<open>
  On a server whose clock is at or ahead of UTC by less than a day, the midnight
  that begins a day in UTC falls on that same day of the week locally.
\<close>

lemma getDay_utc_midnight:
  assumes "- 1440 < tz" and "tz \<le> 0"
  shows "getDay tz (daysFromCivil y m dd * 86400000) = weekday y m dd"
proof -
  let ?D = "daysFromCivil y m dd"
  have "0 \<le> - tz * 60000" "- tz * 60000 < 86400000"
    using assms by auto
  then have "(- tz * 60000 + ?D * 86400000) div 86400000 = ?D"
    by simp
  then have "(?D * 86400000 - tz * 60000) div 86400000 = ?D"
    by (simp add: algebra_simps)
  then show ?thesis
    by (simp add: getDay_def weekday_def)
qed

text \<open>
  C6, as stated, fails. On the small store the therapist has a PENDING
  appointment on Saturday 2024-06-01 at 14:00, the start of the only window of
  that day; the contract as the claim words it leaves no slot, and the query
  still lists the window, with the appointment reported beside it.
\<close>

theorem occupied_slot_still_listed:
  "getAvailableSlots exParseDate 0 (exDb PENDING) ''t1'' ''2024-06-01''
     = Inr \<lparr>date = ''2024-06-01'',
            slots = [\<lparr>slotStartTime = ''14:00'', slotEndTime = ''15:00''\<rparr>],
            bookedSlots = [\<lparr>time = 1717250400000, bookedDuration = 60\<rparr>]\<rparr>
   \<and> occupied (exDb PENDING) ''t1'' (exParseDate ''2024-06-01'' + timeOfDayMs ''14:00'')
   \<and> availableSlotsSpec exParseDate 0 (exDb PENDING) ''t1'' ''2024-06-01'' = []"
  by (simp add: getAvailableSlots_def availableSlotsSpec_def occupied_def blocked_def
        timeOfDayMs_def digitOf_def getDay_def ex_defs read_defs Let_def)

text \<open>
  C6, amended. The date is a string \<^verbatim>\<open>YYYY-MM-DD\<close>, read as the midnight
  that begins that calendar day in UTC, on a server whose clock is at or ahead of
  UTC. For an unknown therapist id the query fails with NotFound. For a known one
  it returns the date as given; every slot it lists is an active recurring window
  of the therapist on the day of the week of that calendar day, and when the
  therapist has no blocked slot the list is all of these windows in stored order;
  the PENDING and CONFIRMED appointments that start within the 24 hours from that
  midnight are not taken out of the slots but reported beside them, each with its
  start and duration; with no matching window the list of slots is empty and the
  query still returns normally. The query has no store to give back: it only
  reads.
\<close>

theorem availability_lists_windows_and_bookings:
  assumes "civilDate d = Some (y, m, dd)"
    and "P d = daysFromCivil y m dd * 86400000"
    and "- 1440 < tz" and "tz \<le> 0"
  shows "(tid \<notin> set (map therapistIdent (therapists db)) \<longrightarrow>
            getAvailableSlots P tz db tid d = Inl (NotFoundException ''Therapist not found''))
         \<and> (tid \<in> set (map therapistIdent (therapists db)) \<longrightarrow>
              (\<exists>r. getAvailableSlots P tz db tid d = Inr r
                  \<and> date r = d
                  \<and> set (slots r) \<subseteq> set (matchingWindows db tid (weekday y m dd))
                  \<and> (filter (\<lambda>b. blockedTherapistId b = tid) (blockedSlots db) = []
                       \<longrightarrow> slots r = matchingWindows db tid (weekday y m dd))
                  \<and> bookedSlots r = bookedOn db tid (daysFromCivil y m dd * 86400000)
                  \<and> (matchingWindows db tid (weekday y m dd) = [] \<longrightarrow> slots r = [])))"
proof (intro conjI impI)
  assume "tid \<notin> set (map therapistIdent (therapists db))"
  then show "getAvailableSlots P tz db tid d = Inl (NotFoundException ''Therapist not found'')"
    by (simp only: findTherapist_None_iff [symmetric] getAvailableSlots_unknown)
next
  assume "tid \<in> set (map therapistIdent (therapists db))"
  then have "findTherapist db tid \<noteq> None"
    by (simp only: findTherapist_None_iff) simp
  from getAvailableSlots_known [OF this, of P tz d]
  have "getAvailableSlots P tz db tid d =
     Inr \<lparr>date = d, slots = matchingWindows db tid (weekday y m dd),
          bookedSlots = bookedOn db tid (daysFromCivil y m dd * 86400000)\<rparr>"
    by (simp add: assms(2) getDay_utc_midnight [OF assms(3,4)])
  then show "\<exists>r. getAvailableSlots P tz db tid d = Inr r
            \<and> date r = d
            \<and> set (slots r) \<subseteq> set (matchingWindows db tid (weekday y m dd))
            \<and> (filter (\<lambda>b. blockedTherapistId b = tid) (blockedSlots db) = []
                 \<longrightarrow> slots r = matchingWindows db tid (weekday y m dd))
            \<and> bookedSlots r = bookedOn db tid (daysFromCivil y m dd * 86400000)
            \<and> (matchingWindows db tid (weekday y m dd) = [] \<longrightarrow> slots r = [])"
    by simp
qed

text \<open>
  On the small store, on a server two hours ahead of UTC: Saturday 2024-06-01
  lists the Saturday window and reports the booking; the Sunday after has no
  window and yields empty lists; an unknown therapist fails.
\<close>

theorem availability_lists_windows_and_bookings_witness:
  "civilDate ''2024-06-01'' = Some (2024, 6, 1)
   \<and> exParseDate ''2024-06-01'' = daysFromCivil 2024 6 1 * 86400000
   \<and> weekday 2024 6 1 = 6
   \<and> getAvailableSlots exParseDate (- 120) (exDb CONFIRMED) ''t1'' ''2024-06-01''
     = Inr \<lparr>date = ''2024-06-01'',
            slots = [\<lparr>slotStartTime = ''14:00'', slotEndTime = ''15:00''\<rparr>],
            bookedSlots = [\<lparr>time = 1717250400000, bookedDuration = 60\<rparr>]\<rparr>
   \<and> civilDate ''2024-06-02'' = Some (2024, 6, 2)
   \<and> exParseDate ''2024-06-02'' = daysFromCivil 2024 6 2 * 86400000
   \<and> weekday 2024 6 2 = 0
   \<and> getAvailableSlots exParseDate (- 120) (exDb CONFIRMED) ''t1'' ''2024-06-02''
     = Inr \<lparr>date = ''2024-06-02'', slots = [], bookedSlots = []\<rparr>
   \<and> getAvailableSlots exParseDate (- 120) (exDb CONFIRMED) ''t9'' ''2024-06-01''
     = Inl (NotFoundException ''Therapist not found'')"
proof -
  have sat: "civilDate ''2024-06-01'' = Some (2024, 6, 1)"
    "exParseDate ''2024-06-01'' = daysFromCivil 2024 6 1 * 86400000"
    "weekday 2024 6 1 = 6"
    by (simp_all add: civilDate_def isDigit_def digitOf_def daysFromCivil_def weekday_def
          exParseDate_def)
  have sun: "civilDate ''2024-06-02'' = Some (2024, 6, 2)"
    "exParseDate ''2024-06-02'' = daysFromCivil 2024 6 2 * 86400000"
    "weekday 2024 6 2 = 0"
    by (simp_all add: civilDate_def isDigit_def digitOf_def daysFromCivil_def weekday_def
          exParseDate_def)
  have tz: "- 1440 < (- 120 :: int)" "(- 120 :: int) \<le> 0"
    by simp_all
  have known: "''t1'' \<in> set (map therapistIdent (therapists (exDb CONFIRMED)))"
    and unknown: "''t9'' \<notin> set (map therapistIdent (therapists (exDb CONFIRMED)))"
    and free: "filter (\<lambda>b. blockedTherapistId b = ''t1'') (blockedSlots (exDb CONFIRMED)) = []"
    by (simp_all add: ex_defs)
  have w6: "matchingWindows (exDb CONFIRMED) ''t1'' 6
               = [\<lparr>slotStartTime = ''14:00'', slotEndTime = ''15:00''\<rparr>]"
    and w0: "matchingWindows (exDb CONFIRMED) ''t1'' 0 = []"
    by (simp_all add: matchingWindows_def ex_defs)
  have b6: "bookedOn (exDb CONFIRMED) ''t1'' (daysFromCivil 2024 6 1 * 86400000)
               = [\<lparr>time = 1717250400000, bookedDuration = 60\<rparr>]"
    and b0: "bookedOn (exDb CONFIRMED) ''t1'' (daysFromCivil 2024 6 2 * 86400000) = []"
    by (simp_all add: bookedOn_def daysFromCivil_def ex_defs)
  from availability_lists_windows_and_bookings
         [where P = exParseDate and d = "''2024-06-01''" and tid = "''t1''"
            and db = "exDb CONFIRMED", OF sat(1,2) tz] known free w6 b6 sat(3)
  have a: "getAvailableSlots exParseDate (- 120) (exDb CONFIRMED) ''t1'' ''2024-06-01''
     = Inr \<lparr>date = ''2024-06-01'',
            slots = [\<lparr>slotStartTime = ''14:00'', slotEndTime = ''15:00''\<rparr>],
            bookedSlots = [\<lparr>time = 1717250400000, bookedDuration = 60\<rparr>]\<rparr>"
    by auto
  from availability_lists_windows_and_bookings
         [where P = exParseDate and d = "''2024-06-02''" and tid = "''t1''"
            and db = "exDb CONFIRMED", OF sun(1,2) tz] known w0 b0 sun(3)
  have b: "getAvailableSlots exParseDate (- 120) (exDb CONFIRMED) ''t1'' ''2024-06-02''
     = Inr \<lparr>date = ''2024-06-02'', slots = [], bookedSlots = []\<rparr>"
    by auto
  from availability_lists_windows_and_bookings
         [where P = exParseDate and d = "''2024-06-01''" and tid = "''t9''"
            and db = "exDb CONFIRMED", OF sat(1,2) tz] unknown
  have c: "getAvailableSlots exParseDate (- 120) (exDb CONFIRMED) ''t9'' ''2024-06-01''
     = Inl (NotFoundException ''Therapist not found'')"
    by blast
  from sat sun a b c show ?thesis by blast
qed

end
